theory Spec2Isabelle
  imports Main
begin

section \<open>The playlist controller of \<^verbatim>\<open>static/js/main.js\<close>\<close>

text \<open>
  The script keeps two variables, \<^verbatim>\<open>currentPlaylist\<close> and \<^verbatim>\<open>currentlyPlayingIndex\<close>,
  writes to a handful of DOM elements and talks to the remote service through \<^verbatim>\<open>fetch\<close>.
  The embedding passes all of that around as one record.

  Every function of the script that talks to the service is an \<^verbatim>\<open>async\<close> function. A call
  of an async function runs its body up to the first \<^verbatim>\<open>await\<close> and returns to the caller;
  the rest of the body runs later, when the awaited response is there. The script never
  awaits its own functions, so each of them is embedded as two functions: the part that runs
  at the call (named like the source function; it records the request that was sent) and
  the part that runs on the response (suffix \<open>_resume\<close>; the response is its argument).
\<close>

subsection \<open>Data\<close>

text \<open>An entry of \<^verbatim>\<open>/api/videos\<close>: \<^verbatim>\<open>{name, filename}\<close>.\<close>

record media_entry =
  name :: string
  filename :: string

text \<open>
  The body of \<^verbatim>\<open>/api/playback/status\<close>. \<^verbatim>\<open>currentVideo\<close> and \<^verbatim>\<open>currentIndex\<close> may be
  \<^verbatim>\<open>null\<close>, which is \<open>None\<close>.
\<close>

record playback_status =
  isPlaying :: bool
  currentVideo :: "media_entry option"
  currentIndex :: "int option"

text \<open>
  The body of an upload or delete response; a property that is missing reads as
  \<^verbatim>\<open>undefined\<close>, which is \<open>None\<close>.
\<close>

record api_result =
  result_message :: "string option"
  result_filename :: "string option"
  result_error :: "string option"

text \<open>
  What an awaited \<^verbatim>\<open>fetch\<close> followed by \<^verbatim>\<open>response.json()\<close> can give: the fetch rejects
  (\<open>NetworkError\<close>), or there is a response with its \<^verbatim>\<open>ok\<close> flag and a body, where the
  body is \<open>None\<close> when \<^verbatim>\<open>response.json()\<close> rejects.
\<close>

datatype 'a response = NetworkError | Response bool "'a option"

text \<open>The requests the script sends, in the order of the source.\<close>

datatype request =
    GetVideos
  | PostReorder "string option list"
  | PostUpload string
  | DeleteVideo string
  | GetStatus

text \<open>
  A list item of the \<^verbatim>\<open>#playlist\<close> element: its \<^verbatim>\<open>textContent\<close> (the text of the item
  and of everything inside it), \<^verbatim>\<open>dataset.filename\<close> and \<^verbatim>\<open>dataset.index\<close> (both
  \<^verbatim>\<open>undefined\<close>, \<open>None\<close>, on the items written through \<^verbatim>\<open>innerHTML\<close>) and whether its
  class list holds \<^verbatim>\<open>playing\<close>.
\<close>

record li =
  li_textContent :: string
  li_filename :: "string option"
  li_index :: "nat option"
  li_playing :: bool

text \<open>
  The variables of the script, the parts of the page it reads and writes, the alerts it
  has raised and the requests it has sent so far. \<^verbatim>\<open>currentlyPlayingIndex\<close> holds a number
  or, once a status has reported \<^verbatim>\<open>currentIndex: null\<close>, \<^verbatim>\<open>null\<close>.
\<close>

record state =
  currentPlaylist :: "media_entry list"
  currentlyPlayingIndex :: "int option"
  playlistElement :: "li list"
  playbackStatus_textContent :: string
  playbackStatus_className :: string
  currentVideo_textContent :: string
  uploadStatus_textContent :: string
  uploadStatus_className :: string
  videoFile_files :: "string list option"
  alerts :: "string list"
  requests :: "request list"

subsection \<open>JavaScript helpers\<close>

text \<open>\<^verbatim>\<open>String.prototype.includes\<close>.\<close>

fun string_includes :: "string \<Rightarrow> string \<Rightarrow> bool" where
  "string_includes [] t = (t = [])"
| "string_includes (c # cs) t = (take (length t) (c # cs) = t \<or> string_includes cs t)"

text \<open>A value inside a template literal: \<^verbatim>\<open>undefined\<close> prints as the word.\<close>

definition template :: "string option \<Rightarrow> string" where
  "template v = (case v of None \<Rightarrow> ''undefined'' | Some t \<Rightarrow> t)"

text \<open>\<^verbatim>\<open>v || d\<close> on a string or \<^verbatim>\<open>undefined\<close>: the empty string is falsy as well.\<close>

definition or_else :: "string option \<Rightarrow> string \<Rightarrow> string" where
  "or_else v d = (case v of None \<Rightarrow> d | Some t \<Rightarrow> if t = [] then d else t)"

text \<open>\<^verbatim>\<open>Array.prototype.find\<close>: the first element that satisfies the test.\<close>

fun find_first :: "('a \<Rightarrow> bool) \<Rightarrow> 'a list \<Rightarrow> 'a option" where
  "find_first p [] = None"
| "find_first p (x # xs) = (if p x then Some x else find_first p xs)"

text \<open>\<^verbatim>\<open>filter(Boolean)\<close> on an array of objects and \<^verbatim>\<open>undefined\<close>.\<close>

fun filter_Boolean :: "'a option list \<Rightarrow> 'a list" where
  "filter_Boolean [] = []"
| "filter_Boolean (None # xs) = filter_Boolean xs"
| "filter_Boolean (Some x # xs) = x # filter_Boolean xs"

subsection \<open>Playlist management\<close>

text \<open>
  \<^verbatim>\<open>renderPlaylist\<close> (lines 36 to 67) rebuilds the list element from the two variables
  and the text of the status element. The text of an item is set to the name of the video
  (line 43); the button appended to it (lines 52 to 60) has the text \<^verbatim>\<open>Delete\<close>, so the
  \<^verbatim>\<open>textContent\<close> of the finished item is the name followed by \<^verbatim>\<open>Delete\<close>. The handlers
  attached to the item and to the button change nothing at the time of rendering.
\<close>

definition render_item :: "state \<Rightarrow> nat \<times> media_entry \<Rightarrow> li" where
  "render_item s = (\<lambda>(index, video).
     \<lparr> li_textContent = name video @ ''Delete'',
       li_filename = Some (filename video),
       li_index = Some index,
       li_playing = (Some (int index) = currentlyPlayingIndex s
                     \<and> string_includes (playbackStatus_textContent s) ''Playing'') \<rparr>)"

definition message_item :: "string \<Rightarrow> li" where
  "message_item t =
     \<lparr> li_textContent = t, li_filename = None, li_index = None, li_playing = False \<rparr>"

definition renderPlaylist :: "state \<Rightarrow> state" where
  "renderPlaylist s =
     s\<lparr> playlistElement :=
          (if length (currentPlaylist s) = 0
           then [message_item ''Playlist is empty. Upload some videos!'']
           else [])
          @ map (render_item s) (enumerate 0 (currentPlaylist s)) \<rparr>"

text \<open>\<^verbatim>\<open>fetchPlaylist\<close> (lines 24 to 34).\<close>

definition fetchPlaylist :: "state \<Rightarrow> state" where
  "fetchPlaylist s = s\<lparr> requests := requests s @ [GetVideos] \<rparr>"

fun fetchPlaylist_resume :: "media_entry list response \<Rightarrow> state \<Rightarrow> state" where
  "fetchPlaylist_resume (Response True (Some videos)) s =
     renderPlaylist (s\<lparr> currentPlaylist := videos \<rparr>)"
| "fetchPlaylist_resume _ s =
     s\<lparr> playlistElement := [message_item ''Error loading playlist.''] \<rparr>"

subsection \<open>Playback status\<close>

text \<open>\<^verbatim>\<open>fetchPlaybackStatus\<close> (lines 239 to 278).\<close>

definition fetchPlaybackStatus :: "state \<Rightarrow> state" where
  "fetchPlaybackStatus s = s\<lparr> requests := requests s @ [GetStatus] \<rparr>"

definition apply_status :: "playback_status \<Rightarrow> state \<Rightarrow> state" where
  "apply_status status s =
     (if isPlaying status then
        (let s1 = s\<lparr> playbackStatus_textContent := ''Status: Playing'',
                     playbackStatus_className := ''status-playing'' \<rparr>
         in case currentVideo status of
              Some video \<Rightarrow>
                s1\<lparr> currentVideo_textContent := ''Current Video: '' @ name video,
                    currentlyPlayingIndex := currentIndex status \<rparr>
            | None \<Rightarrow>
                s1\<lparr> currentVideo_textContent := ''Current Video: Unknown'',
                    currentlyPlayingIndex := Some (- 1) \<rparr>)
      else
        (let s1 = s\<lparr> playbackStatus_textContent := ''Status: Stopped/Idle'',
                     playbackStatus_className := ''status-idle'',
                     currentVideo_textContent := ''Current Video: None'' \<rparr>
         in case currentVideo status of
              None \<Rightarrow> s1
            | Some video \<Rightarrow>
                if name video \<noteq> ''Black Screen'' then s1
                else s1\<lparr> currentVideo_textContent := ''Current Video: Black Screen'' \<rparr>))"

text \<open>The \<^verbatim>\<open>catch\<close> block, before its call of \<^verbatim>\<open>renderPlaylist\<close>.\<close>

definition status_error :: "state \<Rightarrow> state" where
  "status_error s =
     s\<lparr> playbackStatus_textContent := ''Status: Error fetching status'',
        playbackStatus_className := ''status-error'',
        currentVideo_textContent := ''Current Video: Unknown'' \<rparr>"

fun fetchPlaybackStatus_resume :: "playback_status response \<Rightarrow> state \<Rightarrow> state" where
  "fetchPlaybackStatus_resume (Response True (Some status)) s =
     renderPlaylist (apply_status status s)"
| "fetchPlaybackStatus_resume _ s = renderPlaylist (status_error s)"

subsection \<open>Reordering\<close>

text \<open>
  \<^verbatim>\<open>updatePlaylistOrder\<close> (lines 114 to 142). The candidate order is read from the list
  element, whose items the drag handlers have moved; it stays in the closure while the
  request is under way, so the part that runs on the response takes it as an argument.
\<close>

text \<open>
  The \<^verbatim>\<open>dragover\<close> handler (lines 89 to 97) moves the dragged item, the one at position
  \<open>i\<close> of the list element. \<^verbatim>\<open>getDragAfterElement\<close> picks, from the pointer's height, one
  of the other items or none: \<open>Some j\<close> is the item at position \<open>j\<close> among the others, and
  the dragged item goes in front of it; with \<open>None\<close> it goes to the end.
\<close>

definition dragover :: "nat \<Rightarrow> nat option \<Rightarrow> state \<Rightarrow> state" where
  "dragover i afterElement s =
     (let items = playlistElement s
      in if length items \<le> i then s
         else
           (let draggedItem = items ! i;
                others = take i items @ drop (Suc i) items
            in case afterElement of
                 None \<Rightarrow> s\<lparr> playlistElement := others @ [draggedItem] \<rparr>
               | Some j \<Rightarrow>
                   s\<lparr> playlistElement := take j others @ [draggedItem] @ drop j others \<rparr>))"

definition newOrderedFilenames :: "state \<Rightarrow> string option list" where
  "newOrderedFilenames s = map li_filename (playlistElement s)"

definition updatePlaylistOrder :: "state \<Rightarrow> state" where
  "updatePlaylistOrder s =
     (if length (newOrderedFilenames s) \<noteq> length (currentPlaylist s)
      then fetchPlaylist s
      else s\<lparr> requests := requests s @ [PostReorder (newOrderedFilenames s)] \<rparr>)"

definition newPlaylist :: "string option list \<Rightarrow> media_entry list \<Rightarrow> media_entry option list" where
  "newPlaylist order videos =
     map (\<lambda>f. find_first (\<lambda>video. Some (filename video) = f) videos) order"

fun updatePlaylistOrder_resume ::
  "string option list \<Rightarrow> api_result response \<Rightarrow> state \<Rightarrow> state" where
  "updatePlaylistOrder_resume order (Response True (Some result)) s =
     renderPlaylist (fetchPlaybackStatus
       (s\<lparr> currentPlaylist := filter_Boolean (newPlaylist order (currentPlaylist s)) \<rparr>))"
| "updatePlaylistOrder_resume order _ s = fetchPlaylist s"

subsection \<open>Upload and deletion\<close>

text \<open>The submit handler of the upload form (lines 145 to 177).\<close>

definition uploadForm_submit :: "state \<Rightarrow> state" where
  "uploadForm_submit s =
     (case videoFile_files s of
        None \<Rightarrow>
          s\<lparr> uploadStatus_textContent := ''Please select a video file.'',
             uploadStatus_className := ''status-error'' \<rparr>
      | Some [] \<Rightarrow>
          s\<lparr> uploadStatus_textContent := ''Please select a video file.'',
             uploadStatus_className := ''status-error'' \<rparr>
      | Some (file # _) \<Rightarrow>
          s\<lparr> uploadStatus_textContent := ''Uploading...'',
             uploadStatus_className := ''status-pending'',
             requests := requests s @ [PostUpload file] \<rparr>)"

fun uploadForm_submit_resume :: "api_result response \<Rightarrow> state \<Rightarrow> state" where
  "uploadForm_submit_resume (Response True (Some result)) s =
     fetchPlaylist
       (s\<lparr> uploadStatus_textContent :=
             ''Success: '' @ template (result_message result)
               @ '' ('' @ template (result_filename result) @ '')'',
           uploadStatus_className := ''status-success'',
           videoFile_files := Some [] \<rparr>)"
| "uploadForm_submit_resume (Response False (Some result)) s =
     s\<lparr> uploadStatus_textContent := ''Error: '' @ or_else (result_error result) ''Upload failed'',
        uploadStatus_className := ''status-error'' \<rparr>"
| "uploadForm_submit_resume _ s =
     s\<lparr> uploadStatus_textContent := ''Upload failed. See console for details.'',
        uploadStatus_className := ''status-error'' \<rparr>"

text \<open>
  \<^verbatim>\<open>deleteVideo\<close> (lines 180 to 196); \<open>confirmed\<close> is the answer to the \<^verbatim>\<open>confirm\<close>
  dialogue.
\<close>

definition deleteVideo :: "string \<Rightarrow> bool \<Rightarrow> state \<Rightarrow> state" where
  "deleteVideo file confirmed s =
     (if \<not> confirmed then s else s\<lparr> requests := requests s @ [DeleteVideo file] \<rparr>)"

fun deleteVideo_resume :: "api_result response \<Rightarrow> state \<Rightarrow> state" where
  "deleteVideo_resume (Response True (Some result)) s =
     fetchPlaybackStatus (fetchPlaylist s)"
| "deleteVideo_resume (Response False (Some result)) s =
     s\<lparr> alerts := alerts s @ [''Error deleting video: '' @ template (result_error result)] \<rparr>"
| "deleteVideo_resume _ s =
     s\<lparr> alerts := alerts s @ [''Failed to delete video. See console.''] \<rparr>"

subsection \<open>Page load\<close>

text \<open>
  The handler of \<^verbatim>\<open>DOMContentLoaded\<close> (lines 14 to 21) sets the two variables and sends
  the first two requests; \<open>page\<close> is the document as it was served.
\<close>

definition DOMContentLoaded :: "state \<Rightarrow> state" where
  "DOMContentLoaded page =
     fetchPlaybackStatus (fetchPlaylist
       (page\<lparr> currentPlaylist := [], currentlyPlayingIndex := Some (- 1) \<rparr>))"

subsection \<open>What the properties speak about\<close>

text \<open>A request has failed when the fetch rejects, the status is not a success or the
  body cannot be read.\<close>

definition request_failed :: "'a response \<Rightarrow> bool" where
  "request_failed r =
     (case r of NetworkError \<Rightarrow> True | Response ok body \<Rightarrow> \<not> ok \<or> body = None)"

text \<open>A complete status poll: the call and its response.\<close>

definition poll :: "playback_status response \<Rightarrow> state \<Rightarrow> state" where
  "poll r s = fetchPlaybackStatus_resume r (fetchPlaybackStatus s)"


text \<open>The playback display: text and class of the status element, text of the current
  video element.\<close>

definition display :: "state \<Rightarrow> string \<times> string \<times> string" where
  "display s =
     (playbackStatus_textContent s, playbackStatus_className s, currentVideo_textContent s)"

text \<open>The list items that carry the class \<^verbatim>\<open>playing\<close>, by their \<^verbatim>\<open>dataset.index\<close>.\<close>

definition highlighted :: "state \<Rightarrow> nat option list" where
  "highlighted s = map li_index (filter li_playing (playlistElement s))"

text \<open>An index that is a position of the list; an index that is \<open>-1\<close>, \<^verbatim>\<open>null\<close> or a
  position of the list.\<close>

definition valid_index :: "'a list \<Rightarrow> int option \<Rightarrow> bool" where
  "valid_index items idx =
     (case idx of None \<Rightarrow> False | Some i \<Rightarrow> 0 \<le> i \<and> i < int (length items))"

definition index_ok :: "'a list \<Rightarrow> int option \<Rightarrow> bool" where
  "index_ok items idx = (idx = None \<or> idx = Some (- 1) \<or> valid_index items idx)"

text \<open>The filenames of a playlist, as the list element carries them.\<close>

definition filenames :: "media_entry list \<Rightarrow> string option list" where
  "filenames videos = map (\<lambda>video. Some (filename video)) videos"

subsection \<open>Example data\<close>

definition entry :: "string \<Rightarrow> string \<Rightarrow> media_entry" where
  "entry n f = \<lparr> name = n, filename = f \<rparr>"

definition blank_page :: state where
  "blank_page =
     \<lparr> currentPlaylist = [], currentlyPlayingIndex = None, playlistElement = [],
       playbackStatus_textContent = [], playbackStatus_className = [],
       currentVideo_textContent = [], uploadStatus_textContent = [],
       uploadStatus_className = [], videoFile_files = Some [], alerts = [], requests = [] \<rparr>"

definition three_videos :: "media_entry list" where
  "three_videos = [entry ''A'' ''a.mp4'', entry ''B'' ''b.mp4'', entry ''C'' ''c.mp4'']"

definition ok_result :: api_result where
  "ok_result = \<lparr> result_message = Some ''ok'', result_filename = None, result_error = None \<rparr>"

definition ok_body :: "api_result response" where
  "ok_body = Response True (Some ok_result)"

definition playing :: "string \<Rightarrow> string \<Rightarrow> int \<Rightarrow> playback_status response" where
  "playing n f i = Response True
     (Some \<lparr> isPlaying = True, currentVideo = Some (entry n f), currentIndex = Some i \<rparr>)"

text \<open>The page after it has loaded, fetched three videos and learnt that the first one is
  playing.\<close>

definition loaded_page :: state where
  "loaded_page =
     fetchPlaybackStatus_resume (playing ''A'' ''a.mp4'' 0)
       (fetchPlaylist_resume (Response True (Some three_videos))
          (DOMContentLoaded blank_page))"

text \<open>Three more status bodies: the idle device showing its black screen, no video at
  all, and the second video playing.\<close>

definition black_screen :: playback_status where
  "black_screen =
     \<lparr> isPlaying = False, currentVideo = Some (entry ''Black Screen'' ''black.png''),
       currentIndex = Some 0 \<rparr>"

definition no_video :: playback_status where
  "no_video = \<lparr> isPlaying = False, currentVideo = None, currentIndex = None \<rparr>"

definition playing_B :: playback_status where
  "playing_B =
     \<lparr> isPlaying = True, currentVideo = Some (entry ''B'' ''b.mp4''), currentIndex = Some 1 \<rparr>"

text \<open>A fourth video, and the body of a refused upload with the reason the server gives.\<close>

definition four_videos :: "media_entry list" where
  "four_videos = three_videos @ [entry ''D'' ''d.mp4'']"

definition upload_error :: "string \<Rightarrow> api_result response" where
  "upload_error reason = Response False
     (Some \<lparr> result_message = None, result_filename = None, result_error = Some reason \<rparr>)"

text \<open>
  The third video dragged in front of the first one, and the page once the service has
  confirmed that order.
\<close>

definition dragged_page :: state where
  "dragged_page = dragover 2 (Some 0) loaded_page"


text \<open>
  Two races. In the first a fourth video has been uploaded, and the playlist fetched after
  the upload arrives while the reorder request is under way. In the second the third video
  has been deleted, and the playlist fetched after the deletion (from which the third video
  is gone, and to which another client has added a fourth) arrives while the reorder request
  is under way. Both are the state in which the confirmation of the reorder is received.
\<close>

definition upload_race_page :: state where
  "upload_race_page =
     fetchPlaylist_resume (Response True (Some four_videos))
       (updatePlaylistOrder (dragover 2 (Some 0)
          (uploadForm_submit_resume ok_body
             (uploadForm_submit (loaded_page\<lparr> videoFile_files := Some [''d.mp4''] \<rparr>)))))"

definition delete_race_page :: state where
  "delete_race_page =
     fetchPlaylist_resume
       (Response True (Some [entry ''A'' ''a.mp4'', entry ''B'' ''b.mp4'', entry ''D'' ''d.mp4'']))
       (updatePlaylistOrder (dragover 2 (Some 0)
          (deleteVideo_resume ok_body (deleteVideo ''c.mp4'' True loaded_page))))"

section \<open>Auxiliary facts\<close>

subsection \<open>Rendering and the status fields\<close>

lemma renderPlaylist_fields [simp]:
  "currentPlaylist (renderPlaylist s) = currentPlaylist s"
  "currentlyPlayingIndex (renderPlaylist s) = currentlyPlayingIndex s"
  "playbackStatus_textContent (renderPlaylist s) = playbackStatus_textContent s"
  "playbackStatus_className (renderPlaylist s) = playbackStatus_className s"
  "currentVideo_textContent (renderPlaylist s) = currentVideo_textContent s"
  "uploadStatus_textContent (renderPlaylist s) = uploadStatus_textContent s"
  "uploadStatus_className (renderPlaylist s) = uploadStatus_className s"
  "requests (renderPlaylist s) = requests s"
  by (simp_all add: renderPlaylist_def)

lemma renderPlaylist_as_update:
  "renderPlaylist s = s\<lparr>playlistElement := playlistElement (renderPlaylist s)\<rparr>"
  by (simp add: renderPlaylist_def)

lemma renderPlaylist_playlistElement:
  "renderPlaylist (s\<lparr>playlistElement := x\<rparr>) = renderPlaylist s"
  by (simp add: renderPlaylist_def render_item_def)

lemma apply_status_playlistElement:
  "apply_status st (s\<lparr>playlistElement := x\<rparr>) = (apply_status st s)\<lparr>playlistElement := x\<rparr>"
  by (simp add: apply_status_def Let_def split: option.split)

lemma apply_status_idem: "apply_status st (apply_status st s) = apply_status st s"
  by (simp add: apply_status_def Let_def split: option.split)

lemma apply_status_currentPlaylist [simp]:
  "currentPlaylist (apply_status st s) = currentPlaylist s"
  by (simp add: apply_status_def Let_def split: option.split)

lemma apply_status_requests [simp]:
  "requests (apply_status st s) = requests s"
  by (simp add: apply_status_def Let_def split: option.split)

lemma apply_status_index:
  "currentlyPlayingIndex (apply_status st s) =
     (if isPlaying st
      then (case currentVideo st of None \<Rightarrow> Some (- 1) | Some video \<Rightarrow> currentIndex st)
      else currentlyPlayingIndex s)"
  by (simp add: apply_status_def Let_def split: option.split)

lemma apply_status_text:
  "playbackStatus_textContent (apply_status st s) =
     (if isPlaying st then ''Status: Playing'' else ''Status: Stopped/Idle'')"
  by (simp add: apply_status_def Let_def split: option.split)

lemma status_error_playlistElement:
  "status_error (s\<lparr>playlistElement := x\<rparr>) = (status_error s)\<lparr>playlistElement := x\<rparr>"
  by (simp add: status_error_def)

lemma status_error_idem: "status_error (status_error s) = status_error s"
  by (simp add: status_error_def)

lemma resume_failed:
  "request_failed r \<Longrightarrow> fetchPlaybackStatus_resume r s = renderPlaylist (status_error s)"
  by (cases "(r, s)" rule: fetchPlaybackStatus_resume.cases) (simp_all add: request_failed_def)

lemma resume_cases:
  obtains (ok) st where "r = Response True (Some st)" | (failed) "request_failed r"
proof (cases r)
  case NetworkError
  then show ?thesis by (simp add: failed request_failed_def)
next
  case (Response b body)
  show ?thesis
  proof (cases "b \<and> body \<noteq> None")
    case True
    then obtain st where "body = Some st" by auto
    with True Response show ?thesis by (simp add: ok)
  next
    case False
    with Response show ?thesis by (auto simp: failed request_failed_def)
  qed
qed

lemma resume_ok_twice:
  "fetchPlaybackStatus_resume (Response True (Some st))
     (fetchPlaybackStatus_resume (Response True (Some st)) s)
   = fetchPlaybackStatus_resume (Response True (Some st)) s"
proof -
  have "apply_status st (renderPlaylist (apply_status st s))
          = (apply_status st s)\<lparr>playlistElement := playlistElement (renderPlaylist (apply_status st s))\<rparr>"
    by (subst renderPlaylist_as_update) (simp only: apply_status_playlistElement apply_status_idem)
  then show ?thesis
    by (simp add: renderPlaylist_playlistElement)
qed

lemma resume_failed_twice:
  assumes "request_failed r"
  shows "fetchPlaybackStatus_resume r (fetchPlaybackStatus_resume r s) = fetchPlaybackStatus_resume r s"
proof -
  have "status_error (renderPlaylist (status_error s))
          = (status_error s)\<lparr>playlistElement := playlistElement (renderPlaylist (status_error s))\<rparr>"
    by (subst renderPlaylist_as_update) (simp only: status_error_playlistElement status_error_idem)
  then show ?thesis
    using assms by (simp add: resume_failed renderPlaylist_playlistElement)
qed

lemma resume_twice:
  "fetchPlaybackStatus_resume r (fetchPlaybackStatus_resume r s) = fetchPlaybackStatus_resume r s"
  by (cases r rule: resume_cases) (simp_all only: resume_ok_twice resume_failed_twice)

lemma resume_requests: "requests (fetchPlaybackStatus_resume r s) = requests s"
  by (cases r rule: resume_cases) (simp_all add: resume_failed status_error_def)

lemma resume_after_request:
  "fetchPlaybackStatus_resume r (s\<lparr>requests := q\<rparr>) = (fetchPlaybackStatus_resume r s)\<lparr>requests := q\<rparr>"
  by (cases r rule: resume_cases)
     (simp_all add: resume_failed status_error_def renderPlaylist_def render_item_def
        apply_status_def Let_def split: option.split)

subsection \<open>Which item the rendering highlights\<close>

lemma playing_rendered_items:
  "map li_index (filter li_playing (map (render_item s) (enumerate n videos))) =
     (if string_includes (playbackStatus_textContent s) ''Playing''
      then (case currentlyPlayingIndex s of
              None \<Rightarrow> []
            | Some i \<Rightarrow> if int n \<le> i \<and> i < int n + int (length videos) then [Some (nat i)] else [])
      else [])"
proof (induction videos arbitrary: n)
  case Nil
  then show ?case by (auto split: option.split)
next
  case (Cons video videos)
  show ?case
  proof (cases "string_includes (playbackStatus_textContent s) ''Playing''")
    case False
    then show ?thesis using Cons.IH [of "Suc n"] by (simp add: render_item_def)
  next
    case True
    show ?thesis
    proof (cases "currentlyPlayingIndex s")
      case None
      then show ?thesis using Cons.IH [of "Suc n"] True by (simp add: render_item_def)
    next
      case (Some i)
      then show ?thesis using Cons.IH [of "Suc n"] True
        by (auto simp add: render_item_def)
    qed
  qed
qed

lemma highlighted_renderPlaylist:
  "highlighted (renderPlaylist s) =
     (if string_includes (playbackStatus_textContent s) ''Playing''
         \<and> valid_index (currentPlaylist s) (currentlyPlayingIndex s)
      then [Some (nat (the (currentlyPlayingIndex s)))] else [])"
  by (simp add: highlighted_def renderPlaylist_def message_item_def playing_rendered_items
        valid_index_def split: option.split)

lemma Playing_in_status [simp]:
  "string_includes ''Status: Playing'' ''Playing''"
  "\<not> string_includes ''Status: Stopped/Idle'' ''Playing''"
  "\<not> string_includes ''Status: Error fetching status'' ''Playing''"
  by simp_all

lemma highlighted_after_status:
  "highlighted (fetchPlaybackStatus_resume (Response True (Some st)) s) =
     (if isPlaying st \<and> currentVideo st \<noteq> None \<and> valid_index (currentPlaylist s) (currentIndex st)
      then [Some (nat (the (currentIndex st)))] else [])"
  by (auto simp add: highlighted_renderPlaylist apply_status_text apply_status_index valid_index_def
        split: option.split)

subsection \<open>Single steps and the example page\<close>

lemma status_error_fields [simp]:
  "currentPlaylist (status_error s) = currentPlaylist s"
  "currentlyPlayingIndex (status_error s) = currentlyPlayingIndex s"
  "playbackStatus_textContent (status_error s) = ''Status: Error fetching status''"
  "playbackStatus_className (status_error s) = ''status-error''"
  "currentVideo_textContent (status_error s) = ''Current Video: Unknown''"
  by (simp_all add: status_error_def)

lemma upload_with_file_sends_request:
  "videoFile_files s = Some (file # files) \<Longrightarrow>
     requests (uploadForm_submit s) = requests s @ [PostUpload file]
     \<and> uploadStatus_textContent (uploadForm_submit s) = ''Uploading...''"
  by (simp add: uploadForm_submit_def)

lemma loaded_page_fields:
  "currentPlaylist loaded_page = three_videos"
  "currentlyPlayingIndex loaded_page = Some 0"
  "playbackStatus_textContent loaded_page = ''Status: Playing''"
  "requests loaded_page = [GetVideos, GetStatus]"
  by (simp_all add: loaded_page_def playing_def apply_status_index apply_status_text
        DOMContentLoaded_def fetchPlaylist_def fetchPlaybackStatus_def blank_page_def)

lemma length_three_videos [simp]: "length three_videos = 3" "length four_videos = 4"
  by (simp_all add: three_videos_def four_videos_def)

subsection \<open>Mapping a candidate order back to the entries\<close>

lemma find_first_None: "find_first p xs = None \<longleftrightarrow> (\<forall>x \<in> set xs. \<not> p x)"
  by (induction xs) auto

lemma find_first_Some: "find_first p xs = Some x \<Longrightarrow> x \<in> set xs \<and> p x"
  by (induction xs) (auto split: if_splits)


lemma filenames_installed:
  "filenames (filter_Boolean (newPlaylist order videos))
     = filter (\<lambda>f. f \<in> set (filenames videos)) order"
proof (induction order)
  case Nil
  then show ?case by (simp add: newPlaylist_def filenames_def)
next
  case (Cons f order)
  show ?case
  proof (cases "find_first (\<lambda>video. Some (filename video) = f) videos")
    case None
    then have "f \<notin> set (filenames videos)"
      by (auto simp: find_first_None filenames_def)
    with None Cons.IH show ?thesis
      by (simp add: newPlaylist_def)
  next
    case (Some video)
    then have "video \<in> set videos" and "Some (filename video) = f"
      using find_first_Some [OF Some] by simp_all
    then have "f \<in> set (filenames videos)"
      by (auto simp: filenames_def)
    with Some Cons.IH \<open>Some (filename video) = f\<close> show ?thesis
      by (simp add: newPlaylist_def filenames_def)
  qed
qed

lemma installed_subset: "set (filter_Boolean (newPlaylist order videos)) \<subseteq> set videos"
proof (induction order)
  case Nil
  then show ?case by (simp add: newPlaylist_def)
next
  case (Cons f order)
  then show ?case
    by (cases "find_first (\<lambda>video. Some (filename video) = f) videos")
       (auto simp: newPlaylist_def dest: find_first_Some)
qed



subsection \<open>The reorder flow\<close>

lemma fetchPlaylist_fields [simp]:
  "currentPlaylist (fetchPlaylist s) = currentPlaylist s"
  "currentlyPlayingIndex (fetchPlaylist s) = currentlyPlayingIndex s"
  "playlistElement (fetchPlaylist s) = playlistElement s"
  "playbackStatus_textContent (fetchPlaylist s) = playbackStatus_textContent s"
  "requests (fetchPlaylist s) = requests s @ [GetVideos]"
  by (simp_all add: fetchPlaylist_def)

lemma fetchPlaybackStatus_fields [simp]:
  "currentPlaylist (fetchPlaybackStatus s) = currentPlaylist s"
  "currentlyPlayingIndex (fetchPlaybackStatus s) = currentlyPlayingIndex s"
  "playlistElement (fetchPlaybackStatus s) = playlistElement s"
  "playbackStatus_textContent (fetchPlaybackStatus s) = playbackStatus_textContent s"
  "requests (fetchPlaybackStatus s) = requests s @ [GetStatus]"
  by (simp_all add: fetchPlaybackStatus_def)

lemma reorder_failed:
  "request_failed r \<Longrightarrow> updatePlaylistOrder_resume order r s = fetchPlaylist s"
  by (cases "(order, r, s)" rule: updatePlaylistOrder_resume.cases) (simp_all add: request_failed_def)

lemma reorder_confirmed_fields:
  "currentPlaylist (updatePlaylistOrder_resume order (Response True (Some result)) s)
     = filter_Boolean (newPlaylist order (currentPlaylist s))"
  "currentlyPlayingIndex (updatePlaylistOrder_resume order (Response True (Some result)) s)
     = currentlyPlayingIndex s"
  "playbackStatus_textContent (updatePlaylistOrder_resume order (Response True (Some result)) s)
     = playbackStatus_textContent s"
  "requests (updatePlaylistOrder_resume order (Response True (Some result)) s)
     = requests s @ [GetStatus]"
  by simp_all

lemma reorder_confirmed_highlighted:
  "highlighted (updatePlaylistOrder_resume order (Response True (Some result)) s) =
     (if string_includes (playbackStatus_textContent s) ''Playing''
         \<and> valid_index (filter_Boolean (newPlaylist order (currentPlaylist s))) (currentlyPlayingIndex s)
      then [Some (nat (the (currentlyPlayingIndex s)))] else [])"
  by (simp add: highlighted_renderPlaylist)

lemma filenames_length [simp]: "length (filenames videos) = length videos"
  by (simp add: filenames_def)


lemma updatePlaylistOrder_rejected:
  "length (newOrderedFilenames s) \<noteq> length (currentPlaylist s) \<Longrightarrow>
     updatePlaylistOrder s = fetchPlaylist s"
  by (simp add: updatePlaylistOrder_def)


lemma dragged_page_fields:
  "newOrderedFilenames dragged_page = [Some ''c.mp4'', Some ''a.mp4'', Some ''b.mp4'']"
  "currentPlaylist dragged_page = three_videos"
  "currentlyPlayingIndex dragged_page = Some 0"
  "playbackStatus_textContent dragged_page = ''Status: Playing''"
  "requests dragged_page = [GetVideos, GetStatus]"
  by code_simp+

lemma filenames_three_videos:
  "filenames three_videos = [Some ''a.mp4'', Some ''b.mp4'', Some ''c.mp4'']"
  "filenames four_videos = [Some ''a.mp4'', Some ''b.mp4'', Some ''c.mp4'', Some ''d.mp4'']"
  by (simp_all add: filenames_def three_videos_def four_videos_def entry_def)

lemma rendered_filenames:
  "map (li_filename \<circ> render_item s) (enumerate n videos) = filenames videos"
  by (induction videos arbitrary: n) (simp_all add: filenames_def render_item_def)

lemma refetched_fields:
  "currentPlaylist (fetchPlaylist_resume (Response True (Some videos)) s) = videos"
  "videos \<noteq> [] \<Longrightarrow>
     newOrderedFilenames (fetchPlaylist_resume (Response True (Some videos)) s) = filenames videos"
  by (simp_all add: newOrderedFilenames_def renderPlaylist_def rendered_filenames)

section \<open>Properties\<close>

subsection \<open>The playing index after a status poll\<close>

text \<open>
  C1 (as the code has it): every successful status poll leaves the playlist alone and
  stores, as \<^verbatim>\<open>currentlyPlayingIndex\<close>, the reported \<^verbatim>\<open>currentIndex\<close> when the status is playing
  with a current video, \<open>-1\<close> when it is playing without one, and the previous value
  otherwise, whatever the reported index is: the script checks no bounds. After the poll
  the stored index is \<open>-1\<close>, \<^verbatim>\<open>null\<close> or a position of the local playlist exactly when the
  reported index is (for a playing status with a current video), always (for a playing
  status without one), and exactly when the previous index was (for a status that is not
  playing).
\<close>

theorem poll_stores_reported_index:
  "currentPlaylist (fetchPlaybackStatus_resume (Response True (Some st)) s) = currentPlaylist s
   \<and> currentlyPlayingIndex (fetchPlaybackStatus_resume (Response True (Some st)) s) =
       (if isPlaying st
        then (case currentVideo st of None \<Rightarrow> Some (- 1) | Some video \<Rightarrow> currentIndex st)
        else currentlyPlayingIndex s)
   \<and> index_ok (currentPlaylist (fetchPlaybackStatus_resume (Response True (Some st)) s))
                (currentlyPlayingIndex (fetchPlaybackStatus_resume (Response True (Some st)) s)) =
       (if isPlaying st
        then (case currentVideo st of
                None \<Rightarrow> True
              | Some video \<Rightarrow> index_ok (currentPlaylist s) (currentIndex st))
        else index_ok (currentPlaylist s) (currentlyPlayingIndex s))"
  by (simp add: apply_status_index index_ok_def split: option.split)

theorem poll_stores_reported_index_witness:
  "index_ok (currentPlaylist loaded_page) (currentIndex playing_B)
   \<and> currentlyPlayingIndex (fetchPlaybackStatus_resume (Response True (Some playing_B)) loaded_page) = Some 1
   \<and> index_ok (currentPlaylist (fetchPlaybackStatus_resume (Response True (Some playing_B)) loaded_page))
               (currentlyPlayingIndex (fetchPlaybackStatus_resume (Response True (Some playing_B)) loaded_page))
   \<and> index_ok (currentPlaylist loaded_page) (currentlyPlayingIndex loaded_page)
   \<and> currentlyPlayingIndex (fetchPlaybackStatus_resume (Response True (Some no_video)) loaded_page) = Some 0
   \<and> index_ok (currentPlaylist (fetchPlaybackStatus_resume (Response True (Some no_video)) loaded_page))
               (currentlyPlayingIndex (fetchPlaybackStatus_resume (Response True (Some no_video)) loaded_page))
   \<and> \<not> index_ok (currentPlaylist loaded_page) (Some 7)
   \<and> currentlyPlayingIndex (fetchPlaybackStatus_resume (playing ''B'' ''b.mp4'' 7) loaded_page) = Some 7
   \<and> \<not> index_ok (currentPlaylist (fetchPlaybackStatus_resume (playing ''B'' ''b.mp4'' 7) loaded_page))
               (currentlyPlayingIndex (fetchPlaybackStatus_resume (playing ''B'' ''b.mp4'' 7) loaded_page))"
proof -
  have b: "index_ok (currentPlaylist loaded_page) (currentIndex playing_B)"
    by (simp add: loaded_page_fields playing_B_def index_ok_def valid_index_def)
  have n: "index_ok (currentPlaylist loaded_page) (currentlyPlayingIndex loaded_page)"
    by (simp add: loaded_page_fields index_ok_def valid_index_def)
  have o: "\<not> index_ok (currentPlaylist loaded_page) (Some 7)"
    by (simp add: loaded_page_fields index_ok_def valid_index_def)
  from poll_stores_reported_index [of playing_B loaded_page]
       poll_stores_reported_index [of no_video loaded_page]
       poll_stores_reported_index
         [of "\<lparr> isPlaying = True, currentVideo = Some (entry ''B'' ''b.mp4''), currentIndex = Some 7 \<rparr>"
             loaded_page]
       b n o
  show ?thesis
    by (simp add: playing_B_def no_video_def playing_def loaded_page_fields
          del: fetchPlaybackStatus_resume.simps)
qed

text \<open>
  So the index can leave the list: the first status response after the page has loaded,
  arriving while the local playlist is still empty, stores position 0.
\<close>

theorem stored_index_out_of_range_counterexample:
  "currentPlaylist (fetchPlaybackStatus_resume (playing ''A'' ''a.mp4'' 0) (DOMContentLoaded blank_page)) = []
   \<and> currentlyPlayingIndex (fetchPlaybackStatus_resume (playing ''A'' ''a.mp4'' 0) (DOMContentLoaded blank_page)) = Some 0
   \<and> \<not> index_ok (currentPlaylist (fetchPlaybackStatus_resume (playing ''A'' ''a.mp4'' 0) (DOMContentLoaded blank_page)))
        (currentlyPlayingIndex (fetchPlaybackStatus_resume (playing ''A'' ''a.mp4'' 0) (DOMContentLoaded blank_page)))"
  by (simp add: playing_def apply_status_index DOMContentLoaded_def fetchPlaylist_def
        fetchPlaybackStatus_def index_ok_def valid_index_def)

subsection \<open>A reported index that is no position of the local list\<close>

text \<open>
  C2 (as the code has it): when the status has a current video but its \<^verbatim>\<open>currentIndex\<close> is
  no position of the local playlist, applying it highlights no item of the list. The stored
  index is not reset: it is the reported index as it came when the status is playing, and
  the previous index otherwise. When a later fetch brings another playlist, the item at
  the reported index is highlighted if the status was playing and the index is a position of
  that playlist; in every other case no item is highlighted after the fetch either.
\<close>

theorem unresolved_index_highlights_nothing:
  assumes "currentVideo st = Some video"
      and "\<not> valid_index (currentPlaylist s) (currentIndex st)"
  shows "highlighted (fetchPlaybackStatus_resume (Response True (Some st)) s) = []
       \<and> currentlyPlayingIndex (fetchPlaybackStatus_resume (Response True (Some st)) s) =
           (if isPlaying st then currentIndex st else currentlyPlayingIndex s)
       \<and> currentPlaylist (fetchPlaybackStatus_resume (Response True (Some st)) s) = currentPlaylist s
       \<and> highlighted (fetchPlaylist_resume (Response True (Some videos))
                         (fetchPlaybackStatus_resume (Response True (Some st)) s))
           = (if isPlaying st \<and> valid_index videos (currentIndex st)
              then [Some (nat (the (currentIndex st)))] else [])"
  using assms
  by (simp add: highlighted_after_status apply_status_index highlighted_renderPlaylist apply_status_text)

theorem unresolved_index_highlights_nothing_witness:
  "\<not> valid_index (currentPlaylist loaded_page) (Some 3)
   \<and> highlighted loaded_page = [Some 0]
   \<and> highlighted (fetchPlaybackStatus_resume (playing ''D'' ''d.mp4'' 3) loaded_page) = []
   \<and> valid_index four_videos (Some 3)
   \<and> highlighted (fetchPlaylist_resume (Response True (Some four_videos))
                    (fetchPlaybackStatus_resume (playing ''D'' ''d.mp4'' 3) loaded_page)) = [Some 3]
   \<and> highlighted (fetchPlaybackStatus_resume
          (Response True (Some \<lparr> isPlaying = False, currentVideo = Some (entry ''D'' ''d.mp4''),
                                 currentIndex = Some 3 \<rparr>)) loaded_page) = []
   \<and> highlighted (fetchPlaylist_resume (Response True (Some four_videos))
          (fetchPlaybackStatus_resume
             (Response True (Some \<lparr> isPlaying = False, currentVideo = Some (entry ''D'' ''d.mp4''),
                                    currentIndex = Some 3 \<rparr>)) loaded_page)) = []"
proof -
  have h: "\<not> valid_index (currentPlaylist loaded_page)
             (currentIndex \<lparr> isPlaying = True, currentVideo = Some (entry ''D'' ''d.mp4''), currentIndex = Some 3 \<rparr>)"
    by (simp add: loaded_page_fields valid_index_def)
  have v: "valid_index four_videos (Some 3)"
    by (simp add: valid_index_def)
  have l: "highlighted loaded_page = [Some 0]"
    by (simp add: loaded_page_def playing_def highlighted_renderPlaylist apply_status_text
          apply_status_index valid_index_def)
  have h': "\<not> valid_index (currentPlaylist loaded_page)
             (currentIndex \<lparr> isPlaying = False, currentVideo = Some (entry ''D'' ''d.mp4''), currentIndex = Some 3 \<rparr>)"
    by (simp add: loaded_page_fields valid_index_def)
  from unresolved_index_highlights_nothing [OF _ h, of "entry ''D'' ''d.mp4''" four_videos]
       unresolved_index_highlights_nothing [OF _ h', of "entry ''D'' ''d.mp4''" four_videos] h v l
  show ?thesis
    by (simp add: playing_def del: fetchPlaybackStatus_resume.simps fetchPlaylist_resume.simps)
qed

text \<open>
  With three local videos, a playing status that reports position 3 stores 3, which is
  neither \<open>-1\<close> nor \<^verbatim>\<open>null\<close>.
\<close>

theorem unresolved_index_stored_counterexample:
  "\<not> valid_index (currentPlaylist loaded_page) (Some 3)
   \<and> currentlyPlayingIndex (fetchPlaybackStatus_resume (playing ''D'' ''d.mp4'' 3) loaded_page) = Some 3
   \<and> currentlyPlayingIndex (fetchPlaybackStatus_resume (playing ''D'' ''d.mp4'' 3) loaded_page) \<noteq> None
   \<and> currentlyPlayingIndex (fetchPlaybackStatus_resume (playing ''D'' ''d.mp4'' 3) loaded_page) \<noteq> Some (- 1)"
  by (simp add: playing_def apply_status_index loaded_page_fields valid_index_def)

subsection \<open>The order after a confirmed reorder\<close>




subsection \<open>A reorder that is refused\<close>

text \<open>
  C4 (as the code has it): when the number of items in the list element differs from the
  length of the playlist at the end of the drag, or when the reorder request fails, the
  candidate order is not applied at all: the playlist and the list element stay as they are,
  and a fetch of the playlist is requested, whose successful response replaces the playlist
  and the rendered order by what the service sent.
\<close>

theorem refused_reorder_refetches:
  "(length (newOrderedFilenames s) \<noteq> length (currentPlaylist s) \<longrightarrow>
      updatePlaylistOrder s = fetchPlaylist s)
   \<and> (request_failed r \<longrightarrow> updatePlaylistOrder_resume order r s = fetchPlaylist s)
   \<and> currentPlaylist (fetchPlaylist s) = currentPlaylist s
   \<and> playlistElement (fetchPlaylist s) = playlistElement s
   \<and> requests (fetchPlaylist s) = requests s @ [GetVideos]
   \<and> currentPlaylist (fetchPlaylist_resume (Response True (Some videos)) (fetchPlaylist s)) = videos
   \<and> (videos \<noteq> [] \<longrightarrow>
        newOrderedFilenames (fetchPlaylist_resume (Response True (Some videos)) (fetchPlaylist s))
          = filenames videos)"
  by (simp add: updatePlaylistOrder_rejected reorder_failed refetched_fields
        del: fetchPlaylist_resume.simps)

theorem refused_reorder_refetches_witness:
  "length (newOrderedFilenames (fetchPlaylist_resume NetworkError loaded_page))
     \<noteq> length (currentPlaylist (fetchPlaylist_resume NetworkError loaded_page))
   \<and> updatePlaylistOrder (fetchPlaylist_resume NetworkError loaded_page)
     = fetchPlaylist (fetchPlaylist_resume NetworkError loaded_page)
   \<and> request_failed (Response False (Some ok_result))
   \<and> updatePlaylistOrder_resume (newOrderedFilenames dragged_page) (Response False (Some ok_result))
        (updatePlaylistOrder dragged_page)
     = fetchPlaylist (updatePlaylistOrder dragged_page)
   \<and> currentPlaylist (fetchPlaylist_resume (Response True (Some three_videos))
        (fetchPlaylist (updatePlaylistOrder dragged_page))) = three_videos
   \<and> newOrderedFilenames (fetchPlaylist_resume (Response True (Some three_videos))
        (fetchPlaylist (updatePlaylistOrder dragged_page)))
     = [Some ''a.mp4'', Some ''b.mp4'', Some ''c.mp4'']"
proof -
  have g: "length (newOrderedFilenames (fetchPlaylist_resume NetworkError loaded_page))
             \<noteq> length (currentPlaylist (fetchPlaylist_resume NetworkError loaded_page))"
    by (simp add: newOrderedFilenames_def loaded_page_fields)
  have f: "request_failed (Response False (Some ok_result))"
    by (simp add: request_failed_def)
  have n: "three_videos \<noteq> []"
    by (simp add: three_videos_def)
  from refused_reorder_refetches
         [of "fetchPlaylist_resume NetworkError loaded_page" NetworkError "[]" "[]"]
       refused_reorder_refetches
         [of "updatePlaylistOrder dragged_page" "Response False (Some ok_result)"
             "newOrderedFilenames dragged_page" three_videos]
       g f n
  show ?thesis
    by (simp add: filenames_three_videos del: fetchPlaylist_resume.simps updatePlaylistOrder_resume.simps)
qed

text \<open>
  A confirmed reorder is applied even if the playlist has changed in between, and no fetch
  follows it: here the playlist fetched after an upload holds four videos when the
  confirmation of an order of three arrives, and the fourth video is dropped.
\<close>

theorem confirmed_mismatch_merged_counterexample:
  "currentPlaylist upload_race_page = four_videos
   \<and> set [Some ''c.mp4'', Some ''a.mp4'', Some ''b.mp4''] \<noteq> set (filenames (currentPlaylist upload_race_page))
   \<and> currentPlaylist (updatePlaylistOrder_resume [Some ''c.mp4'', Some ''a.mp4'', Some ''b.mp4'']
        ok_body upload_race_page)
     = [entry ''C'' ''c.mp4'', entry ''A'' ''a.mp4'', entry ''B'' ''b.mp4'']
   \<and> requests (updatePlaylistOrder_resume [Some ''c.mp4'', Some ''a.mp4'', Some ''b.mp4'']
        ok_body upload_race_page)
     = [GetVideos, GetStatus, PostUpload ''d.mp4'', GetVideos,
        PostReorder [Some ''c.mp4'', Some ''a.mp4'', Some ''b.mp4''], GetStatus]"
  by code_simp

subsection \<open>What the guard of the reorder compares\<close>

text \<open>
  C5 (as the code has it): at the end of a drag the candidate order is rejected, and a
  fetch of the playlist requested in place of the reorder, exactly when the number of items
  in the list element differs from the length of the playlist; the playlist is left alone
  either way. When the service confirms a candidate order, the filenames of the new playlist
  are the filenames of the candidate that occur in the playlist of that moment, in the
  candidate's order; the new entries are entries of that playlist, and a status request is
  sent, not a fetch of the playlist.
\<close>

theorem reorder_guard_compares_lengths:
  "requests (updatePlaylistOrder s) =
     requests s @ [if length (newOrderedFilenames s) \<noteq> length (currentPlaylist s)
                   then GetVideos else PostReorder (newOrderedFilenames s)]
   \<and> currentPlaylist (updatePlaylistOrder s) = currentPlaylist s
   \<and> filenames (currentPlaylist (updatePlaylistOrder_resume order (Response True (Some result)) t))
       = filter (\<lambda>f. f \<in> set (filenames (currentPlaylist t))) order
   \<and> set (currentPlaylist (updatePlaylistOrder_resume order (Response True (Some result)) t))
       \<subseteq> set (currentPlaylist t)
   \<and> requests (updatePlaylistOrder_resume order (Response True (Some result)) t)
       = requests t @ [GetStatus]"
  by (simp add: updatePlaylistOrder_def filenames_installed installed_subset)

theorem reorder_guard_compares_lengths_witness:
  "requests (updatePlaylistOrder dragged_page)
     = [GetVideos, GetStatus, PostReorder [Some ''c.mp4'', Some ''a.mp4'', Some ''b.mp4'']]
   \<and> requests (updatePlaylistOrder (fetchPlaylist_resume NetworkError loaded_page))
     = [GetVideos, GetStatus, GetVideos]
   \<and> filenames (currentPlaylist (updatePlaylistOrder_resume
        [Some ''c.mp4'', Some ''a.mp4'', Some ''b.mp4''] (Response True (Some ok_result)) delete_race_page))
     = [Some ''a.mp4'', Some ''b.mp4'']"
proof -
  have d: "filenames (currentPlaylist delete_race_page) = [Some ''a.mp4'', Some ''b.mp4'', Some ''d.mp4'']"
    by code_simp
  have e: "newOrderedFilenames (fetchPlaylist_resume NetworkError loaded_page) = [None]"
          "currentPlaylist (fetchPlaylist_resume NetworkError loaded_page) = three_videos"
          "requests (fetchPlaylist_resume NetworkError loaded_page) = [GetVideos, GetStatus]"
    by (simp_all add: newOrderedFilenames_def message_item_def loaded_page_fields)
  from reorder_guard_compares_lengths
         [of dragged_page "[Some ''c.mp4'', Some ''a.mp4'', Some ''b.mp4'']" ok_result delete_race_page]
       reorder_guard_compares_lengths
         [of "fetchPlaylist_resume NetworkError loaded_page" "[]" ok_result blank_page]
  show ?thesis
    by (simp add: d e dragged_page_fields
          del: updatePlaylistOrder_resume.simps fetchPlaylist_resume.simps)
qed

text \<open>
  A candidate of the same length as the playlist, but with other members, is installed: the
  playlist fetched after a deletion holds the first, second and fourth video when the
  confirmation of the order third, first, second arrives; the result is first, second.
\<close>

theorem same_length_mismatch_installed_counterexample:
  "length [Some ''c.mp4'', Some ''a.mp4'', Some ''b.mp4''] = length (currentPlaylist delete_race_page)
   \<and> set [Some ''c.mp4'', Some ''a.mp4'', Some ''b.mp4''] \<noteq> set (filenames (currentPlaylist delete_race_page))
   \<and> currentPlaylist (updatePlaylistOrder_resume [Some ''c.mp4'', Some ''a.mp4'', Some ''b.mp4'']
        ok_body delete_race_page)
     = [entry ''A'' ''a.mp4'', entry ''B'' ''b.mp4'']
   \<and> requests (updatePlaylistOrder_resume [Some ''c.mp4'', Some ''a.mp4'', Some ''b.mp4'']
        ok_body delete_race_page)
     = [GetVideos, GetStatus, DeleteVideo ''c.mp4'', GetVideos, GetStatus,
        PostReorder [Some ''c.mp4'', Some ''a.mp4'', Some ''b.mp4''], GetStatus]"
  by code_simp

subsection \<open>Failed status polls\<close>

text \<open>
  C6: when a status poll fails (the fetch rejects, the status is not a success, or the body
  cannot be read), the handler shows the error in the playback display and leaves the
  playing index and the playlist as they were.
\<close>

theorem failed_poll_keeps_index:
  assumes "request_failed r"
  shows "display (fetchPlaybackStatus_resume r s)
           = (''Status: Error fetching status'', ''status-error'', ''Current Video: Unknown'')
       \<and> currentlyPlayingIndex (fetchPlaybackStatus_resume r s) = currentlyPlayingIndex s
       \<and> currentPlaylist (fetchPlaybackStatus_resume r s) = currentPlaylist s"
  using assms by (simp add: resume_failed display_def)

theorem failed_poll_keeps_index_witness:
  "request_failed (NetworkError :: playback_status response)
   \<and> request_failed (Response False (None :: playback_status option))
   \<and> currentlyPlayingIndex loaded_page = Some 0
   \<and> currentlyPlayingIndex (fetchPlaybackStatus_resume NetworkError loaded_page) = Some 0
   \<and> currentPlaylist (fetchPlaybackStatus_resume NetworkError loaded_page) = three_videos
   \<and> currentlyPlayingIndex (fetchPlaybackStatus_resume (Response False None) loaded_page) = Some 0
   \<and> playbackStatus_className (fetchPlaybackStatus_resume (Response False None) loaded_page) = ''status-error''"
  using failed_poll_keeps_index [of "NetworkError" loaded_page]
        failed_poll_keeps_index [of "Response False None" loaded_page]
  by (simp add: request_failed_def display_def loaded_page_def playing_def apply_status_index
        DOMContentLoaded_def fetchPlaylist_def fetchPlaybackStatus_def)

subsection \<open>Repeated status polls\<close>

text \<open>
  C7: applying the same status response twice in succession gives the same state as
  applying it once. This holds for the whole state when the response is applied, and for
  the playlist, the playing index, the rendered list and the playback display when each
  application is a complete poll (which also records its request).
\<close>

theorem status_poll_idempotent:
  "fetchPlaybackStatus_resume r (fetchPlaybackStatus_resume r s) = fetchPlaybackStatus_resume r s
   \<and> currentPlaylist (poll r (poll r s)) = currentPlaylist (poll r s)
   \<and> currentlyPlayingIndex (poll r (poll r s)) = currentlyPlayingIndex (poll r s)
   \<and> playlistElement (poll r (poll r s)) = playlistElement (poll r s)
   \<and> display (poll r (poll r s)) = display (poll r s)"
proof -
  have "poll r (poll r s) = (poll r s)\<lparr>requests := requests s @ [GetStatus, GetStatus]\<rparr>"
    by (simp add: poll_def fetchPlaybackStatus_def resume_after_request resume_twice resume_requests)
  then show ?thesis
    by (simp add: resume_twice display_def)
qed

theorem status_poll_idempotent_witness:
  "currentlyPlayingIndex (poll (playing ''B'' ''b.mp4'' 1) (poll (playing ''B'' ''b.mp4'' 1) loaded_page))
     = currentlyPlayingIndex (poll (playing ''B'' ''b.mp4'' 1) loaded_page)
   \<and> currentlyPlayingIndex (poll (playing ''B'' ''b.mp4'' 1) loaded_page) = Some 1
   \<and> currentlyPlayingIndex loaded_page = Some 0"
  using status_poll_idempotent [of "playing ''B'' ''b.mp4'' 1" loaded_page]
  by (simp add: poll_def playing_def loaded_page_def apply_status_index)

subsection \<open>A refused upload\<close>

text \<open>
  C8: when the upload is refused and the body carries a reason (a string that is not
  empty), the upload status surfaces that reason: it shows \<^verbatim>\<open>Error: \<close> followed by the
  reason, with class \<^verbatim>\<open>status-error\<close>. The playlist, the playing index and the rendered
  list are unchanged, and no request is sent: the playlist is not fetched again.
\<close>

theorem failed_upload_shows_reason:
  assumes "result_error result = Some reason" and "reason \<noteq> []"
  shows "uploadStatus_textContent (uploadForm_submit_resume (Response False (Some result)) s)
           = ''Error: '' @ reason
       \<and> uploadStatus_className (uploadForm_submit_resume (Response False (Some result)) s)
           = ''status-error''
       \<and> currentPlaylist (uploadForm_submit_resume (Response False (Some result)) s) = currentPlaylist s
       \<and> currentlyPlayingIndex (uploadForm_submit_resume (Response False (Some result)) s)
           = currentlyPlayingIndex s
       \<and> playlistElement (uploadForm_submit_resume (Response False (Some result)) s) = playlistElement s
       \<and> requests (uploadForm_submit_resume (Response False (Some result)) s) = requests s"
  using assms by (simp add: or_else_def)

theorem failed_upload_shows_reason_witness:
  "uploadStatus_textContent (uploadForm_submit_resume (upload_error ''unsupported format'') loaded_page)
     = ''Error: unsupported format''
   \<and> uploadStatus_className (uploadForm_submit_resume (upload_error ''unsupported format'') loaded_page)
     = ''status-error''
   \<and> currentPlaylist (uploadForm_submit_resume (upload_error ''unsupported format'') loaded_page)
     = three_videos
   \<and> requests (uploadForm_submit_resume (upload_error ''unsupported format'') loaded_page)
     = [GetVideos, GetStatus]"
  using failed_upload_shows_reason
          [of "\<lparr> result_message = None, result_filename = None, result_error = Some ''unsupported format'' \<rparr>"
              "''unsupported format''" loaded_page]
  by (simp add: upload_error_def loaded_page_fields)

subsection \<open>The black screen\<close>

text \<open>
  C9: a status that is not playing and whose current video is named \<^verbatim>\<open>Black Screen\<close> is
  displayed as \<^verbatim>\<open>Status: Stopped/Idle\<close> with \<^verbatim>\<open>Current Video: Black Screen\<close>, which differs
  from the display of every playing status and from the display of every idle status
  without a current video.
\<close>

theorem black_screen_display_distinct:
  assumes "\<not> isPlaying b" and "currentVideo b = Some video" and "name video = ''Black Screen''"
      and "isPlaying p"
      and "\<not> isPlaying n" and "currentVideo n = None"
  shows "display (fetchPlaybackStatus_resume (Response True (Some b)) s)
            = (''Status: Stopped/Idle'', ''status-idle'', ''Current Video: Black Screen'')
       \<and> display (fetchPlaybackStatus_resume (Response True (Some b)) s)
            \<noteq> display (fetchPlaybackStatus_resume (Response True (Some p)) s1)
       \<and> display (fetchPlaybackStatus_resume (Response True (Some b)) s)
            \<noteq> display (fetchPlaybackStatus_resume (Response True (Some n)) s2)"
  using assms
  by (simp add: display_def apply_status_def Let_def split: option.splits)

theorem black_screen_display_distinct_witness:
  "display (fetchPlaybackStatus_resume (Response True (Some black_screen)) loaded_page)
     = (''Status: Stopped/Idle'', ''status-idle'', ''Current Video: Black Screen'')
   \<and> display (fetchPlaybackStatus_resume (Response True (Some playing_B)) loaded_page)
     = (''Status: Playing'', ''status-playing'', ''Current Video: B'')
   \<and> display (fetchPlaybackStatus_resume (Response True (Some no_video)) loaded_page)
     = (''Status: Stopped/Idle'', ''status-idle'', ''Current Video: None'')
   \<and> display (fetchPlaybackStatus_resume (Response True (Some black_screen)) loaded_page)
        \<noteq> display (fetchPlaybackStatus_resume (Response True (Some playing_B)) loaded_page)
   \<and> display (fetchPlaybackStatus_resume (Response True (Some black_screen)) loaded_page)
        \<noteq> display (fetchPlaybackStatus_resume (Response True (Some no_video)) loaded_page)"
  using black_screen_display_distinct [of black_screen "entry ''Black Screen'' ''black.png''" playing_B no_video
          loaded_page loaded_page loaded_page]
  by (simp add: black_screen_def playing_B_def no_video_def entry_def display_def apply_status_def)

subsection \<open>Upload without a file\<close>

text \<open>
  C10: submitting the upload form with no file selected only writes the error message
  \<^verbatim>\<open>Please select a video file.\<close> with class \<^verbatim>\<open>status-error\<close>: no request is sent and the
  playlist, the playing index and the rendered list stay as they were.
\<close>

theorem upload_without_file_sends_nothing:
  assumes "videoFile_files s = None \<or> videoFile_files s = Some []"
  shows "uploadForm_submit s =
           s\<lparr> uploadStatus_textContent := ''Please select a video file.'',
              uploadStatus_className := ''status-error'' \<rparr>
         \<and> requests (uploadForm_submit s) = requests s
         \<and> currentPlaylist (uploadForm_submit s) = currentPlaylist s
         \<and> currentlyPlayingIndex (uploadForm_submit s) = currentlyPlayingIndex s
         \<and> playlistElement (uploadForm_submit s) = playlistElement s"
  using assms by (auto simp: uploadForm_submit_def)

theorem upload_without_file_sends_nothing_witness:
  "videoFile_files loaded_page = Some []
   \<and> requests (uploadForm_submit loaded_page) = requests loaded_page
   \<and> currentPlaylist (uploadForm_submit loaded_page) = three_videos
   \<and> uploadStatus_textContent (uploadForm_submit loaded_page) = ''Please select a video file.''
   \<and> uploadStatus_className (uploadForm_submit loaded_page) = ''status-error''"
proof -
  have files: "videoFile_files loaded_page = Some []"
    by (simp add: loaded_page_def playing_def renderPlaylist_def apply_status_def
          DOMContentLoaded_def fetchPlaylist_def fetchPlaybackStatus_def blank_page_def)
  have items: "currentPlaylist loaded_page = three_videos"
    by (simp add: loaded_page_def playing_def)
  from files have h: "videoFile_files loaded_page = None \<or> videoFile_files loaded_page = Some []"
    by simp
  have "uploadStatus_textContent (uploadForm_submit loaded_page) = ''Please select a video file.''
      \<and> uploadStatus_className (uploadForm_submit loaded_page) = ''status-error''"
    by (subst (1 2) conjunct1 [OF upload_without_file_sends_nothing [OF h]]) simp
  with upload_without_file_sends_nothing [OF h] files items show ?thesis
    by simp
qed

end
